theory Spec2Isabelle
  imports Complex_Main "HOL-Library.Word" "HOL-Library.AList" "HOL-Library.Sublist"
begin

section \<open>The forwarding relay (upload-proxy.mjs)\<close>

text \<open>
  A shallow embedding of the request handler of \<^verbatim>\<open>upload-proxy.mjs\<close> and of the helpers
  it calls: \<^verbatim>\<open>isAllowedTarget\<close>, \<^verbatim>\<open>setCors\<close>, \<^verbatim>\<open>readRequestBody\<close>,
  \<^verbatim>\<open>parseExtraHeaders\<close> and \<^verbatim>\<open>proxyFetch\<close>.

  The platform functions the script calls but does not define are parameters of the model:
  \<^item> \<open>URL\<close>, for \<^verbatim>\<open>new URL(input)\<close> and \<^verbatim>\<open>new URL(input, base)\<close>; \<open>None\<close> is the
    \<^verbatim>\<open>TypeError\<close> the constructor throws;
  \<^item> \<open>JSON_parse\<close>, for \<^verbatim>\<open>JSON.parse\<close>; \<open>None\<close> is its \<^verbatim>\<open>SyntaxError\<close>;
  \<^item> \<open>fetch\<close>, the settled outcome of the promise \<^verbatim>\<open>fetch(url, init)\<close>: \<open>Inl e\<close> when
    it rejects (a network failure, or the abort raised by the 120 s timer), \<open>Inr r\<close> when
    it resolves to the response \<open>r\<close>.
  Every outbound call is recorded in a list returned next to the response, so that
  "no outbound call" is the empty list. The \<^verbatim>\<open>console.log\<close> lines and the timer of
  \<^verbatim>\<open>proxyFetch\<close> have no effect on the response and are left out.
\<close>

subsection \<open>Strings, bytes and text\<close>

text \<open>
  A \<open>string\<close> stands for a JavaScript string whose code units are below 256, a
  \<open>code_unit list\<close> for an arbitrary JavaScript string (the text of an upstream body), a
  \<open>byte list\<close> for a \<^verbatim>\<open>Buffer\<close> or the bytes of a body on the wire.
\<close>

type_synonym byte = "8 word"
type_synonym code_unit = "16 word"

definition js :: "string \<Rightarrow> code_unit list" where
  "js s = map (\<lambda>c. of_nat (of_char c)) s"

text \<open>
  \<^verbatim>\<open>String.prototype.toLowerCase\<close> on the letters A to Z. The other code units below 256
  that JavaScript changes (the capital letters of Latin-1) go to code units outside ASCII,
  so every comparison below with an ASCII name comes out as in JavaScript.
\<close>

definition lower_char :: "char \<Rightarrow> char" where
  "lower_char c =
     (case map_of (zip ''ABCDEFGHIJKLMNOPQRSTUVWXYZ'' ''abcdefghijklmnopqrstuvwxyz'') c of
        None \<Rightarrow> c
      | Some l \<Rightarrow> l)"

definition toLowerCase :: "string \<Rightarrow> string" where
  "toLowerCase s = map lower_char s"

text \<open>
  \<^verbatim>\<open>s.endsWith(searchString)\<close>: the substring of \<open>s\<close> that starts
  \<open>length searchString\<close> code units before its end is compared with \<open>searchString\<close>;
  there is none when \<open>searchString\<close> is the longer one.
\<close>

definition endsWith :: "string \<Rightarrow> string \<Rightarrow> bool" where
  "endsWith s searchString =
     (length searchString \<le> length s \<and>
      drop (length s - length searchString) s = searchString)"

text \<open>\<^verbatim>\<open>String(i)\<close> for an array index \<open>i\<close>: its decimal digits.\<close>

fun decimal :: "nat \<Rightarrow> string" where
  "decimal n =
     (if n < 10 then [''0123456789'' ! n]
      else decimal (n div 10) @ [''0123456789'' ! (n mod 10)])"

declare decimal.simps [simp del]

subsubsection \<open>UTF-8\<close>

text \<open>
  \<^verbatim>\<open>response.text()\<close> decodes the body as UTF-8 and \<^verbatim>\<open>res.end(string)\<close> encodes the
  string as UTF-8. The decoder is the one of the Encoding Standard: \<open>utf8_dec needed cp
  lower upper\<close> holds the number of continuation bytes still needed, the code point built
  so far and the bounds of the next byte; an ill-formed sequence gives U+FFFD and the
  offending byte is read again; a leading byte order mark is dropped.
\<close>

definition utf16 :: "nat \<Rightarrow> code_unit list" where
  "utf16 cp =
     (if cp < 0x10000 then [of_nat cp]
      else [of_nat (0xD800 + (cp - 0x10000) div 0x400),
            of_nat (0xDC00 + (cp - 0x10000) mod 0x400)])"

fun utf8_dec :: "nat \<Rightarrow> nat \<Rightarrow> nat \<Rightarrow> nat \<Rightarrow> byte list \<Rightarrow> code_unit list" where
  "utf8_dec 0 cp lower upper [] = []"
| "utf8_dec (Suc n) cp lower upper [] = [0xFFFD]"
| "utf8_dec 0 cp lower upper (b # bs) =
     (let x = unat b in
      if x \<le> 0x7F then of_nat x # utf8_dec 0 0 0x80 0xBF bs
      else if 0xC2 \<le> x \<and> x \<le> 0xDF then utf8_dec 1 (x mod 32) 0x80 0xBF bs
      else if 0xE0 \<le> x \<and> x \<le> 0xEF then
        utf8_dec 2 (x mod 16) (if x = 0xE0 then 0xA0 else 0x80)
          (if x = 0xED then 0x9F else 0xBF) bs
      else if 0xF0 \<le> x \<and> x \<le> 0xF4 then
        utf8_dec 3 (x mod 8) (if x = 0xF0 then 0x90 else 0x80)
          (if x = 0xF4 then 0x8F else 0xBF) bs
      else 0xFFFD # utf8_dec 0 0 0x80 0xBF bs)"
| "utf8_dec (Suc n) cp lower upper (b # bs) =
     (let x = unat b in
      if x < lower \<or> upper < x then 0xFFFD # utf8_dec 0 0 0x80 0xBF (b # bs)
      else if n = 0 then utf16 (cp * 64 + x mod 64) @ utf8_dec 0 0 0x80 0xBF bs
      else utf8_dec n (cp * 64 + x mod 64) 0x80 0xBF bs)"

definition utf8_decode :: "byte list \<Rightarrow> code_unit list" where
  "utf8_decode bs =
     utf8_dec 0 0 0x80 0xBF (if take 3 bs = [0xEF, 0xBB, 0xBF] then drop 3 bs else bs)"

text \<open>
  The encoder: one to three bytes for a code unit that is not a surrogate, four bytes for
  a surrogate pair, and the three bytes of U+FFFD for a surrogate on its own.
\<close>

fun utf8_encode :: "code_unit list \<Rightarrow> byte list" where
  "utf8_encode [] = []"
| "utf8_encode (c # cs) =
     (let x = unat c in
      if x < 0x80 then of_nat x # utf8_encode cs
      else if x < 0x800 then of_nat (0xC0 + x div 64) # of_nat (0x80 + x mod 64) # utf8_encode cs
      else if 0xD800 \<le> x \<and> x < 0xDC00 then
        (case cs of
           [] \<Rightarrow> [0xEF, 0xBF, 0xBD]
         | d # ds \<Rightarrow>
             if 0xDC00 \<le> unat d \<and> unat d < 0xE000 then
               (let cp = 0x10000 + (x - 0xD800) * 0x400 + (unat d - 0xDC00) in
                of_nat (0xF0 + cp div 0x40000) # of_nat (0x80 + cp div 0x1000 mod 64) #
                of_nat (0x80 + cp div 64 mod 64) # of_nat (0x80 + cp mod 64) # utf8_encode ds)
             else 0xEF # 0xBF # 0xBD # utf8_encode cs)
      else if 0xDC00 \<le> x \<and> x < 0xE000 then 0xEF # 0xBF # 0xBD # utf8_encode cs
      else of_nat (0xE0 + x div 0x1000) # of_nat (0x80 + x div 64 mod 64) #
           of_nat (0x80 + x mod 64) # utf8_encode cs)"

subsection \<open>Errors\<close>

text \<open>
  A thrown value is an \<^verbatim>\<open>Error\<close> object: its \<^verbatim>\<open>name\<close> and its \<^verbatim>\<open>message\<close>.
  \<^verbatim>\<open>e?.message || String(e)\<close> is the message unless it is empty, and then
  \<^verbatim>\<open>String(e)\<close>, which for an error with an empty message is its name.
\<close>

datatype error = Error string string

fun message_or_String :: "error \<Rightarrow> string" where
  "message_or_String (Error name message) = (if message \<noteq> [] then message else name)"

subsection \<open>URLs and the host allow-list\<close>

record url_record =
  protocol :: string
  hostname :: string
  pathname :: string
  searchParams :: "(string \<times> string) list"

type_synonym url_parser = "string \<Rightarrow> string option \<Rightarrow> url_record option"

text \<open>\<^verbatim>\<open>searchParams.get(name)\<close>: the first value of that name, or \<^verbatim>\<open>null\<close>.\<close>

definition searchParams_get :: "url_record \<Rightarrow> string \<Rightarrow> string option" where
  "searchParams_get u name = map_of (searchParams u) name"

definition ALLOWED_HOST_SUFFIXES :: "string list" where
  "ALLOWED_HOST_SUFFIXES =
     [''developer.api.autodesk.com'',
      ''autodesk.com'',
      ''amazonaws.com'',
      ''cloudfront.net'',
      ''s3.amazonaws.com'']"

definition isAllowedTarget :: "url_parser \<Rightarrow> string \<Rightarrow> bool" where
  "isAllowedTarget URL targetUrl =
     (case URL targetUrl None of
        None \<Rightarrow> False
      | Some u \<Rightarrow>
          if protocol u \<noteq> ''https:'' \<and> protocol u \<noteq> ''http:'' then False
          else
            (let host = toLowerCase (hostname u)
             in list_ex (\<lambda>suffix. host = suffix \<or> endsWith host (''.'' @ suffix))
                  ALLOWED_HOST_SUFFIXES))"

subsubsection \<open>The allow-list in the words of the specification\<close>

text \<open>
  The specification asks for a match that ignores case: the host is one of the allowed
  suffixes, or it ends with a dot followed by one of them. This is that sentence, stated
  without \<^verbatim>\<open>toLowerCase\<close> and without \<^verbatim>\<open>endsWith\<close>, to compare
  \<open>isAllowedTarget\<close> with. Two characters are the same letter when they are equal, or
  one is a capital from A to Z (the codes 65 to 90) and the other is the small letter, 32
  codes further. \<open>suffixes h\<close> lists the strings \<open>h\<close> ends with.
\<close>

definition capital :: "char \<Rightarrow> bool" where
  "capital c = (65 \<le> (of_char c :: nat) \<and> (of_char c :: nat) \<le> 90)"

definition same_letter :: "char \<Rightarrow> char \<Rightarrow> bool" where
  "same_letter c d =
     (c = d \<or>
      (capital c \<and> (of_char d :: nat) = of_char c + 32) \<or>
      (capital d \<and> (of_char c :: nat) = of_char d + 32))"

definition equal_ignoring_case :: "string \<Rightarrow> string \<Rightarrow> bool" where
  "equal_ignoring_case s t = list_all2 same_letter s t"

definition host_matches_suffix :: "string \<Rightarrow> string \<Rightarrow> bool" where
  "host_matches_suffix h sfx =
     (equal_ignoring_case h sfx \<or>
      list_ex (\<lambda>rest. equal_ignoring_case rest (''.'' @ sfx)) (suffixes h))"

definition allow_listed_host :: "string \<Rightarrow> bool" where
  "allow_listed_host h = list_ex (host_matches_suffix h) ALLOWED_HOST_SUFFIXES"

subsection \<open>JSON values\<close>

text \<open>
  What \<^verbatim>\<open>JSON.parse\<close> returns. \<open>JObject es\<close> is an object whose own properties are,
  in the order of \<^verbatim>\<open>Object.entries\<close>, the pairs \<open>es\<close>; an object has each key once.
\<close>

datatype json =
    JNull
  | JBool bool
  | JNumber rat
  | JString string
  | JArray "json list"
  | JObject "(string \<times> json) list"

type_synonym json_parser = "string \<Rightarrow> json option"

fun typeof :: "json \<Rightarrow> string" where
  "typeof JNull = ''object''"
| "typeof (JBool b) = ''boolean''"
| "typeof (JNumber n) = ''number''"
| "typeof (JString s) = ''string''"
| "typeof (JArray vs) = ''object''"
| "typeof (JObject es) = ''object''"

text \<open>\<open>falsy v\<close> is \<^verbatim>\<open>!v\<close>.\<close>

fun falsy :: "json \<Rightarrow> bool" where
  "falsy JNull = True"
| "falsy (JBool b) = (\<not> b)"
| "falsy (JNumber n) = (n = 0)"
| "falsy (JString s) = (s = [])"
| "falsy (JArray vs) = False"
| "falsy (JObject es) = False"

text \<open>
  \<^verbatim>\<open>Object.entries\<close>, which the script calls on objects and arrays only: the entries of
  an array are its elements under their indices.
\<close>

fun Object_entries :: "json \<Rightarrow> (string \<times> json) list" where
  "Object_entries (JObject es) = es"
| "Object_entries (JArray vs) = zip (map decimal [0..<length vs]) vs"
| "Object_entries v = []"

subsection \<open>The inbound request\<close>

text \<open>
  \<^verbatim>\<open>req.headers[name]\<close> is a string or an array of strings. The body of the request
  is the chunks of its \<^verbatim>\<open>data\<close> events, followed by \<^verbatim>\<open>end\<close> or, when
  \<open>req_error\<close> is set, by \<^verbatim>\<open>error\<close>.
\<close>

datatype header_value = Single string | Multiple "string list"

record incoming_message =
  req_method :: string
  req_url :: string
  req_host :: "string option"
  req_x_extra_headers :: "header_value option"
  req_chunks :: "byte list list"
  req_error :: "error option"

definition readRequestBody :: "incoming_message \<Rightarrow> error + byte list" where
  "readRequestBody req =
     (case req_error req of
        Some e \<Rightarrow> Inl e
      | None \<Rightarrow> Inr (concat (req_chunks req)))"

text \<open>The local constant \<^verbatim>\<open>allowed\<close> of \<^verbatim>\<open>parseExtraHeaders\<close>.\<close>

definition allowed :: "string list" where
  "allowed = [''authorization'', ''x-ads-region'', ''accept'', ''content-type'']"

text \<open>
  The loop body of \<^verbatim>\<open>parseExtraHeaders\<close>: \<^verbatim>\<open>out[k] = v\<close> replaces the value of a
  key that \<open>out\<close> has and appends the pair otherwise.
\<close>

definition keep_entry ::
  "string \<times> json \<Rightarrow> (string \<times> string) list \<Rightarrow> (string \<times> string) list" where
  "keep_entry e out =
     (case e of (k, v) \<Rightarrow>
        (let lk = toLowerCase k
         in if lk \<in> set allowed \<and> typeof v = ''string''
            then (case v of JString s \<Rightarrow> AList.update k s out | _ \<Rightarrow> out)
            else out))"

text \<open>
  \<open>first_value raw\<close> is \<^verbatim>\<open>Array.isArray(raw) ? raw[0] : raw\<close>, as \<^verbatim>\<open>JSON.parse\<close>
  reads it: \<^verbatim>\<open>raw[0]\<close> of an empty array is \<^verbatim>\<open>undefined\<close>, which is parsed as the
  text \<^verbatim>\<open>undefined\<close>. \<^verbatim>\<open>!raw\<close> holds for a missing header and for the empty
  string, not for an array.
\<close>

fun first_value :: "header_value \<Rightarrow> string" where
  "first_value (Multiple []) = ''undefined''"
| "first_value (Multiple (x # xs)) = x"
| "first_value (Single x) = x"

definition parseExtraHeaders :: "json_parser \<Rightarrow> incoming_message \<Rightarrow> (string \<times> string) list" where
  "parseExtraHeaders JSON_parse req =
     (case req_x_extra_headers req of
        None \<Rightarrow> []
      | Some raw \<Rightarrow>
          if raw = Single [] then []
          else
            (let str = first_value raw
             in case JSON_parse str of
                  None \<Rightarrow> []
                | Some obj \<Rightarrow>
                    if falsy obj \<or> typeof obj \<noteq> ''object'' then []
                    else fold keep_entry (Object_entries obj) []))"

subsection \<open>The outbound call\<close>

text \<open>
  The body of an upstream response: none (\<^verbatim>\<open>response.body\<close> is \<^verbatim>\<open>null\<close>), a stream
  that delivers its bytes and ends, or a stream that fails after some bytes.
  \<open>up_headers\<close> holds the response headers under their lower-cased names, as the
  \<^verbatim>\<open>Headers\<close> object does; \<^verbatim>\<open>response.ok\<close> is a status from 200 to 299.
\<close>

datatype web_body = Null | Delivered "byte list" | Failing "byte list"

record fetch_response =
  status :: nat
  up_headers :: "(string \<times> string) list"
  up_body :: web_body

definition ok :: "fetch_response \<Rightarrow> bool" where
  "ok r = (200 \<le> status r \<and> status r \<le> 299)"

definition headers_get :: "fetch_response \<Rightarrow> string \<Rightarrow> string option" where
  "headers_get r key = map_of (up_headers r) (toLowerCase key)"

text \<open>\<^verbatim>\<open>response.text()\<close>; it rejects when the stream fails.\<close>

fun text_of :: "web_body \<Rightarrow> error + code_unit list" where
  "text_of Null = Inr []"
| "text_of (Delivered bs) = Inr (utf8_decode bs)"
| "text_of (Failing bs) = Inl (Error ''TypeError'' ''terminated'')"

text \<open>\<^verbatim>\<open>upstream.text().catch(() => "")\<close>\<close>

definition text_or_empty :: "fetch_response \<Rightarrow> code_unit list" where
  "text_or_empty r = (case text_of (up_body r) of Inl e \<Rightarrow> [] | Inr t \<Rightarrow> t)"

record outbound_call =
  call_url :: string
  call_method :: string
  call_headers :: "(string \<times> string) list"
  call_body :: "byte list option"
  call_redirect :: string

type_synonym fetcher = "outbound_call \<Rightarrow> error + fetch_response"

text \<open>
  \<^verbatim>\<open>proxyFetch\<close> returns what \<^verbatim>\<open>fetch\<close> settles to, and the call it made. A
  \<^verbatim>\<open>Buffer\<close> is an object, so \<^verbatim>\<open>bodyBuffer ? bodyBuffer : undefined\<close> is the buffer
  whenever one was passed, also an empty one.
\<close>

definition proxyFetch ::
  "fetcher \<Rightarrow> string \<Rightarrow> string \<Rightarrow> (string \<times> string) list \<Rightarrow> byte list option
     \<Rightarrow> (error + fetch_response) \<times> outbound_call list" where
  "proxyFetch fetch targetUrl method extraHeaders bodyBuffer =
     (let call = \<lparr>call_url = targetUrl,
                  call_method = method,
                  call_headers = extraHeaders,
                  call_body = (case bodyBuffer of Some b \<Rightarrow> Some b | None \<Rightarrow> None),
                  call_redirect = ''follow''\<rparr>
      in (fetch call, [call]))"

subsection \<open>The response of the relay\<close>

text \<open>
  \<open>res_ended\<close> says that the response was completed (\<^verbatim>\<open>res.end\<close> was called, or the
  piped stream ended). The script spells each header name one way, so
  \<^verbatim>\<open>res.setHeader\<close> is an update of an association list.
\<close>

record server_response =
  statusCode :: nat
  res_headers :: "(string \<times> string) list"
  res_body :: "byte list"
  res_ended :: bool

definition new_response :: server_response where
  "new_response = \<lparr>statusCode = 200, res_headers = [], res_body = [], res_ended = False\<rparr>"

definition setHeader :: "string \<Rightarrow> string \<Rightarrow> server_response \<Rightarrow> server_response" where
  "setHeader key v res = res\<lparr>res_headers := AList.update key v (res_headers res)\<rparr>"

definition res_end :: "code_unit list \<Rightarrow> server_response \<Rightarrow> server_response" where
  "res_end data res = res\<lparr>res_body := res_body res @ utf8_encode data, res_ended := True\<rparr>"

text \<open>\<^verbatim>\<open>Readable.fromWeb(body).pipe(res)\<close>, for a body that is not \<^verbatim>\<open>null\<close>.\<close>

fun pipe :: "web_body \<Rightarrow> server_response \<Rightarrow> server_response" where
  "pipe (Delivered bs) res = res\<lparr>res_body := res_body res @ bs, res_ended := True\<rparr>"
| "pipe (Failing bs) res = res\<lparr>res_body := res_body res @ bs\<rparr>"
| "pipe Null res = res"

definition setCors :: "server_response \<Rightarrow> server_response" where
  "setCors res =
     setHeader ''Access-Control-Allow-Headers'' ''Content-Type, X-Extra-Headers''
       (setHeader ''Access-Control-Allow-Methods'' ''POST,OPTIONS''
         (setHeader ''Access-Control-Allow-Origin'' ''*'' res))"

subsection \<open>The request handler\<close>

text \<open>
  The handler mutates \<^verbatim>\<open>res\<close> and may throw; the model passes the response along and
  returns the thrown error, if any, the response as it then is, and the outbound calls
  made. \<open>handle_fetch\<close> and \<open>handle_upload\<close> are the bodies of the two
  \<^verbatim>\<open>if (pathname === ...)\<close> blocks, \<open>handle\<close> is the \<^verbatim>\<open>try\<close> block and
  \<open>handler\<close> adds the \<^verbatim>\<open>catch\<close> block. \<^verbatim>\<open>text.slice(0, 2000)\<close> is the first
  2000 code units of the text.
\<close>

text \<open>
  The base of \<^verbatim>\<open>new URL(req.url, `http://${req.headers.host}`)\<close>; a missing
  \<^verbatim>\<open>Host\<close> header is printed as \<^verbatim>\<open>undefined\<close>.
\<close>

definition request_base :: "incoming_message \<Rightarrow> string" where
  "request_base req = ''http://'' @ (case req_host req of None \<Rightarrow> ''undefined'' | Some h \<Rightarrow> h)"

type_synonym handled = "error option \<times> server_response \<times> outbound_call list"

definition handle_fetch ::
  "fetcher \<Rightarrow> string \<Rightarrow> (string \<times> string) list \<Rightarrow> server_response \<Rightarrow> handled" where
  "handle_fetch fetch target extraHeaders res =
     (case proxyFetch fetch target ''GET'' extraHeaders None of
        (Inl e, calls) \<Rightarrow> (Some e, res, calls)
      | (Inr upstream, calls) \<Rightarrow>
          if \<not> ok upstream then
            (let text = text_or_empty upstream;
                 res1 = res\<lparr>statusCode := status upstream\<rparr>;
                 res2 = setHeader ''Content-Type'' ''text/plain; charset=utf-8'' res1
             in (None, res_end (take 2000 text) res2, calls))
          else
            (let ct = (case headers_get upstream ''content-type'' of
                         None \<Rightarrow> ''application/octet-stream''
                       | Some c \<Rightarrow> if c = [] then ''application/octet-stream'' else c);
                 res1 = setHeader ''Content-Type'' ct res;
                 res2 = (case headers_get upstream ''content-length'' of
                           None \<Rightarrow> res1
                         | Some cl \<Rightarrow> if cl = [] then res1 else setHeader ''Content-Length'' cl res1);
                 res3 = res2\<lparr>statusCode := 200\<rparr>;
                 body = up_body upstream
             in if body = Null then (None, res_end [] res3, calls)
                else (None, pipe body res3, calls)))"

definition handle_upload ::
  "fetcher \<Rightarrow> incoming_message \<Rightarrow> string \<Rightarrow> (string \<times> string) list \<Rightarrow> server_response
     \<Rightarrow> handled" where
  "handle_upload fetch req target extraHeaders res =
     (case readRequestBody req of
        Inl e \<Rightarrow> (Some e, res, [])
      | Inr buf \<Rightarrow>
          (case proxyFetch fetch target ''PUT'' extraHeaders (Some buf) of
             (Inl e, calls) \<Rightarrow> (Some e, res, calls)
           | (Inr upstream, calls) \<Rightarrow>
               (let text = text_or_empty upstream;
                    res1 = res\<lparr>statusCode := status upstream\<rparr>;
                    res2 = setHeader ''Content-Type'' ''text/plain; charset=utf-8'' res1
                in (None, res_end (take 2000 text) res2, calls))))"

definition handle ::
  "url_parser \<Rightarrow> json_parser \<Rightarrow> fetcher \<Rightarrow> incoming_message \<Rightarrow> server_response \<Rightarrow> handled" where
  "handle URL JSON_parse fetch req res0 =
     (let res = setCors res0
      in if req_method req = ''OPTIONS'' then (None, res_end [] (res\<lparr>statusCode := 204\<rparr>), [])
         else
           (case URL (req_url req) (Some (request_base req)) of
              None \<Rightarrow> (Some (Error ''TypeError'' ''Invalid URL''), res, [])
            | Some urlObj \<Rightarrow>
                (let pathname = pathname urlObj;
                     target = searchParams_get urlObj ''url''
                 in if req_method req \<noteq> ''POST'' then
                      (None, res_end (js ''Only POST is supported'') (res\<lparr>statusCode := 405\<rparr>), [])
                    else
                      (case target of
                         None \<Rightarrow> (None, res_end (js ''Missing ?url='') (res\<lparr>statusCode := 400\<rparr>), [])
                       | Some t \<Rightarrow>
                           if t = [] then
                             (None, res_end (js ''Missing ?url='') (res\<lparr>statusCode := 400\<rparr>), [])
                           else if \<not> isAllowedTarget URL t then
                             (None,
                              res_end (js ''Target URL not allowed by proxy whitelist'')
                                (res\<lparr>statusCode := 403\<rparr>), [])
                           else
                             (let extraHeaders = parseExtraHeaders JSON_parse req
                              in if pathname = ''/fetch'' then handle_fetch fetch t extraHeaders res
                                 else if pathname = ''/upload'' then
                                   handle_upload fetch req t extraHeaders res
                                 else
                                   (None,
                                    res_end
                                      (js ''Not found. Use POST /fetch?url=... or POST /upload?url=...'')
                                      (res\<lparr>statusCode := 404\<rparr>), []))))))"

definition handler ::
  "url_parser \<Rightarrow> json_parser \<Rightarrow> fetcher \<Rightarrow> incoming_message
     \<Rightarrow> server_response \<times> outbound_call list" where
  "handler URL JSON_parse fetch req =
     (case handle URL JSON_parse fetch req new_response of
        (None, res, calls) \<Rightarrow> (res, calls)
      | (Some e, res, calls) \<Rightarrow>
          (let res1 = res\<lparr>statusCode := 500\<rparr>;
               res2 = setHeader ''Content-Type'' ''text/plain; charset=utf-8'' res1
           in (res_end (js (''Proxy error: '' @ message_or_String e)) res2, calls)))"

subsection \<open>Sample requests\<close>

text \<open>
  Concrete inputs for the examples below, for a relay reached as \<^verbatim>\<open>localhost:8787\<close>.
  \<open>URL_sample\<close> and \<open>JSON_parse_sample\<close> list what \<^verbatim>\<open>new URL\<close> and
  \<^verbatim>\<open>JSON.parse\<close> return on the inputs the examples use. Of the inputs that are not
  listed the examples use three, which the platform rejects: \<^verbatim>\<open>new URL("not-a-url")\<close>
  and \<^verbatim>\<open>new URL("")\<close> throw a \<^verbatim>\<open>TypeError\<close>, \<^verbatim>\<open>JSON.parse("not-json")\<close> a
  \<^verbatim>\<open>SyntaxError\<close>.
\<close>

definition relay_url :: "string \<Rightarrow> (string \<times> string) list \<Rightarrow> url_record" where
  "relay_url path params =
     \<lparr>protocol = ''http:'', hostname = ''localhost'', pathname = path, searchParams = params\<rparr>"

definition URL_sample :: url_parser where
  "URL_sample input base =
     map_of
       [((''/fetch?url=https%3A%2F%2Fbucket.s3.amazonaws.com%2Fkey'', Some ''http://localhost:8787''),
         relay_url ''/fetch'' [(''url'', ''https://bucket.s3.amazonaws.com/key'')]),
        ((''/upload?url=https%3A%2F%2Fbucket.s3.amazonaws.com%2Fkey'', Some ''http://localhost:8787''),
         relay_url ''/upload'' [(''url'', ''https://bucket.s3.amazonaws.com/key'')]),
        ((''/status?url=https%3A%2F%2Fbucket.s3.amazonaws.com%2Fkey'', Some ''http://localhost:8787''),
         relay_url ''/status'' [(''url'', ''https://bucket.s3.amazonaws.com/key'')]),
        ((''/fetch?url=https%3A%2F%2Fevil-amazonaws.com.attacker.net%2F'', Some ''http://localhost:8787''),
         relay_url ''/fetch'' [(''url'', ''https://evil-amazonaws.com.attacker.net/'')]),
        ((''/fetch?url=not-a-url'', Some ''http://localhost:8787''),
         relay_url ''/fetch'' [(''url'', ''not-a-url'')]),
        ((''/fetch?url='', Some ''http://localhost:8787''), relay_url ''/fetch'' [(''url'', '''')]),
        ((''/fetch'', Some ''http://localhost:8787''), relay_url ''/fetch'' []),
        ((''/status'', Some ''http://localhost:8787''), relay_url ''/status'' []),
        ((''https://bucket.s3.amazonaws.com/key'', None),
         \<lparr>protocol = ''https:'', hostname = ''bucket.s3.amazonaws.com'', pathname = ''/key'',
          searchParams = []\<rparr>),
        ((''https://evil-amazonaws.com.attacker.net/'', None),
         \<lparr>protocol = ''https:'', hostname = ''evil-amazonaws.com.attacker.net'', pathname = ''/'',
          searchParams = []\<rparr>),
        ((''/fetch?url=ftp%3A%2F%2Fbucket.s3.amazonaws.com%2Fkey'', Some ''http://localhost:8787''),
         relay_url ''/fetch'' [(''url'', ''ftp://bucket.s3.amazonaws.com/key'')]),
        ((''ftp://bucket.s3.amazonaws.com/key'', None),
         \<lparr>protocol = ''ftp:'', hostname = ''bucket.s3.amazonaws.com'', pathname = ''/key'',
          searchParams = []\<rparr>)]
       (input, base)"

text \<open>
  The platform lower-cases the host of an http or https URL before the script does, so
  that on its results \<^verbatim>\<open>toLowerCase\<close> changes nothing. \<open>URL_keeping_case\<close> is a
  parser that leaves the host as it is written, for an example in which the script's own
  \<^verbatim>\<open>toLowerCase\<close> does the work.
\<close>

definition URL_keeping_case :: url_parser where
  "URL_keeping_case input base =
     map_of
       [((''https://Bucket.S3.AmazonAWS.COM/key'', None),
         \<lparr>protocol = ''https:'', hostname = ''Bucket.S3.AmazonAWS.COM'', pathname = ''/key'',
          searchParams = []\<rparr>)]
       (input, base)"

definition JSON_parse_sample :: json_parser where
  \<open>JSON_parse_sample str =
     map_of
       [(''{"Authorization":"Bearer abc","X-Forbidden":"x","Accept":"text/plain"}'',
         JObject [(''Authorization'', JString ''Bearer abc''),
                  (''X-Forbidden'', JString ''x''),
                  (''Accept'', JString ''text/plain'')]),
        (''[1]'', JArray [JNumber 1])] str\<close>

definition fetch_fails :: fetcher where
  "fetch_fails call = Inl (Error ''TypeError'' ''fetch failed'')"

definition sample_request :: "string \<Rightarrow> string \<Rightarrow> incoming_message" where
  "sample_request m u =
     \<lparr>req_method = m, req_url = u, req_host = Some ''localhost:8787'',
      req_x_extra_headers = None, req_chunks = [], req_error = None\<rparr>"

definition fetch_returns :: "fetch_response \<Rightarrow> fetcher" where
  "fetch_returns r call = Inr r"

definition with_extra_headers :: "header_value \<Rightarrow> incoming_message \<Rightarrow> incoming_message" where
  "with_extra_headers raw req = req\<lparr>req_x_extra_headers := Some raw\<rparr>"

definition with_chunks :: "byte list list \<Rightarrow> incoming_message \<Rightarrow> incoming_message" where
  "with_chunks cs req = req\<lparr>req_chunks := cs\<rparr>"

definition created_response :: fetch_response where
  "created_response = \<lparr>status = 200, up_headers = [], up_body = Delivered []\<rparr>"




section \<open>Properties\<close>

subsection \<open>The host allow-list\<close>

lemma endsWith_iff: "endsWith s t \<longleftrightarrow> (\<exists>p. s = p @ t)"
proof
  assume "endsWith s t"
  then have "s = take (length s - length t) s @ t"
    by (metis append_take_drop_id endsWith_def)
  then show "\<exists>p. s = p @ t" ..
next
  assume "\<exists>p. s = p @ t"
  then show "endsWith s t"
    by (auto simp add: endsWith_def)
qed

text \<open>\<open>lower_char\<close> adds 32 to the code of a capital and leaves every other character.\<close>

lemma lower_char_code:
  "(of_char (lower_char c) :: nat) = (if capital c then of_char c + 32 else of_char c)"
  by (cases c) (simp add: lower_char_def capital_def)

lemma same_letter_iff: "same_letter c d \<longleftrightarrow> lower_char c = lower_char d"
proof -
  have "lower_char c = lower_char d \<longleftrightarrow>
      (of_char (lower_char c) :: nat) = of_char (lower_char d)"
    by simp
  also have "\<dots> \<longleftrightarrow> same_letter c d"
    unfolding lower_char_code same_letter_def
    by (auto simp add: capital_def)
  finally show ?thesis ..
qed

lemma equal_ignoring_case_iff: "equal_ignoring_case s t \<longleftrightarrow> toLowerCase s = toLowerCase t"
  unfolding equal_ignoring_case_def toLowerCase_def
proof (induction s arbitrary: t)
  case Nil
  then show ?case by auto
next
  case (Cons c s)
  then show ?case
    by (cases t) (simp_all add: same_letter_iff)
qed

lemma ex_suffixes:
  "(\<exists>rest \<in> set (suffixes h). P rest) \<longleftrightarrow> (\<exists>sub rest. h = sub @ rest \<and> P rest)"
  unfolding Bex_def in_set_suffixes suffix_def by blast

lemma allowed_suffix_lower:
  assumes "sfx \<in> set ALLOWED_HOST_SUFFIXES"
  shows "toLowerCase sfx = sfx"
  using assms by (auto simp add: ALLOWED_HOST_SUFFIXES_def toLowerCase_def lower_char_def)

text \<open>The test of \<^verbatim>\<open>isAllowedTarget\<close> on one suffix is the match of the specification.\<close>

lemma host_matches_suffix_iff:
  assumes "toLowerCase sfx = sfx"
  shows "toLowerCase h = sfx \<or> endsWith (toLowerCase h) (''.'' @ sfx) \<longleftrightarrow>
         host_matches_suffix h sfx"
proof -
  have dot: "toLowerCase (''.'' @ sfx) = ''.'' @ sfx"
    using assms by (simp add: toLowerCase_def lower_char_def)
  have "endsWith (toLowerCase h) (''.'' @ sfx) \<longleftrightarrow>
      (\<exists>rest \<in> set (suffixes h). toLowerCase rest = ''.'' @ sfx)"
  proof
    assume "endsWith (toLowerCase h) (''.'' @ sfx)"
    then obtain p where p: "map lower_char h = p @ (''.'' @ sfx)"
      by (auto simp add: endsWith_iff toLowerCase_def)
    have "\<exists>us vs. h = us @ vs \<and> p = map lower_char us \<and> ''.'' @ sfx = map lower_char vs"
      using p by (rule map_eq_append_conv [THEN iffD1])
    then obtain a rest where h: "h = a @ rest" and r: "''.'' @ sfx = map lower_char rest"
      by blast
    from h have "rest \<in> set (suffixes h)"
      by (simp add: suffix_def)
    moreover from r have "toLowerCase rest = ''.'' @ sfx"
      by (simp add: toLowerCase_def)
    ultimately show "\<exists>rest \<in> set (suffixes h). toLowerCase rest = ''.'' @ sfx" ..
  next
    assume "\<exists>rest \<in> set (suffixes h). toLowerCase rest = ''.'' @ sfx"
    then obtain rest where "rest \<in> set (suffixes h)" and r: "toLowerCase rest = ''.'' @ sfx" ..
    then obtain a where "h = a @ rest"
      by (auto simp add: suffix_def)
    with r have "toLowerCase h = toLowerCase a @ (''.'' @ sfx)"
      by (simp add: toLowerCase_def)
    then show "endsWith (toLowerCase h) (''.'' @ sfx)"
      unfolding endsWith_iff ..
  qed
  then show ?thesis
    by (simp only: host_matches_suffix_def equal_ignoring_case_iff assms dot list_ex_iff)
qed

lemma isAllowedTarget_iff:
  "isAllowedTarget URL targetUrl \<longleftrightarrow>
     (\<exists>u. URL targetUrl None = Some u \<and>
          (protocol u = ''https:'' \<or> protocol u = ''http:'') \<and>
          allow_listed_host (hostname u))"
proof -
  have "list_ex (\<lambda>sfx. toLowerCase h = sfx \<or> endsWith (toLowerCase h) (''.'' @ sfx))
          ALLOWED_HOST_SUFFIXES \<longleftrightarrow> allow_listed_host h" for h
    unfolding allow_listed_host_def list_ex_iff
    using host_matches_suffix_iff [OF allowed_suffix_lower] by blast
  then show ?thesis
    by (auto simp add: isAllowedTarget_def Let_def split: option.splits)
qed

text \<open>
  C3. For a target that parses with the scheme http or https, \<^verbatim>\<open>isAllowedTarget\<close> holds
  if and only if the hostname, ignoring case, is one of the allowed suffixes or ends with
  a dot followed by one of them; \<^verbatim>\<open>evil-amazonaws.com.attacker.net\<close>, which only
  contains an allowed suffix, is rejected.
\<close>

theorem isAllowedTarget_iff_suffix_match:
  assumes "URL targetUrl None = Some u"
    and "protocol u = ''https:'' \<or> protocol u = ''http:''"
  shows "(isAllowedTarget URL targetUrl \<longleftrightarrow> allow_listed_host (hostname u)) \<and>
         (isAllowedTarget URL targetUrl \<longleftrightarrow>
            (\<exists>sfx \<in> set ALLOWED_HOST_SUFFIXES.
               equal_ignoring_case (hostname u) sfx \<or>
               (\<exists>sub rest. hostname u = sub @ rest \<and>
                  equal_ignoring_case rest (''.'' @ sfx)))) \<and>
         (hostname u = ''evil-amazonaws.com.attacker.net'' \<longrightarrow> \<not> isAllowedTarget URL targetUrl)"
proof (intro conjI)
  from assms show 1: "isAllowedTarget URL targetUrl \<longleftrightarrow> allow_listed_host (hostname u)"
    by (simp add: isAllowedTarget_iff)
  show "isAllowedTarget URL targetUrl \<longleftrightarrow>
          (\<exists>sfx \<in> set ALLOWED_HOST_SUFFIXES.
             equal_ignoring_case (hostname u) sfx \<or>
             (\<exists>sub rest. hostname u = sub @ rest \<and>
                equal_ignoring_case rest (''.'' @ sfx)))"
    unfolding 1 allow_listed_host_def host_matches_suffix_def list_ex_iff ex_suffixes ..
  show "hostname u = ''evil-amazonaws.com.attacker.net'' \<longrightarrow> \<not> isAllowedTarget URL targetUrl"
    using assms(1)
    by (simp add: isAllowedTarget_def Let_def toLowerCase_def lower_char_def
        ALLOWED_HOST_SUFFIXES_def endsWith_def)
qed

text \<open>
  Witness for C3: the host \<^verbatim>\<open>Bucket.S3.AmazonAWS.COM\<close>, written with capitals, ends
  with a dot followed by \<^verbatim>\<open>amazonaws.com\<close> when case is ignored, and is allowed.
\<close>

theorem isAllowedTarget_iff_suffix_match_witness:
  "allow_listed_host ''Bucket.S3.AmazonAWS.COM'' \<and>
   isAllowedTarget URL_keeping_case ''https://Bucket.S3.AmazonAWS.COM/key''"
proof -
  let ?u = "\<lparr>protocol = ''https:'', hostname = ''Bucket.S3.AmazonAWS.COM'', pathname = ''/key'',
             searchParams = []\<rparr>"
  have 1: "URL_keeping_case ''https://Bucket.S3.AmazonAWS.COM/key'' None = Some ?u"
    by (simp add: URL_keeping_case_def)
  have 2: "protocol ?u = ''https:'' \<or> protocol ?u = ''http:''"
    by simp
  have 3: "allow_listed_host ''Bucket.S3.AmazonAWS.COM''"
    by code_simp
  from isAllowedTarget_iff_suffix_match [where URL = URL_keeping_case, OF 1 2] 3
  show ?thesis by simp
qed

subsection \<open>The order of the checks\<close>

lemmas sample_defs =
  URL_sample_def relay_url_def sample_request_def request_base_def searchParams_get_def

lemma statusCode_res_end: "statusCode (res_end d res) = statusCode res"
  by (simp add: res_end_def)

lemma statusCode_setHeader: "statusCode (setHeader k v res) = statusCode res"
  by (simp add: setHeader_def)

text \<open>
  An answer that is given right after \<^verbatim>\<open>setCors\<close>: the status, the end of the
  response, and the text as the body.
\<close>

lemma short_answer:
  "statusCode (res_end d ((setCors new_response)\<lparr>statusCode := n\<rparr>)) = n"
  "res_ended (res_end d ((setCors new_response)\<lparr>statusCode := n\<rparr>))"
  "res_body (res_end d ((setCors new_response)\<lparr>statusCode := n\<rparr>)) = utf8_encode d"
  by (simp_all add: res_end_def setCors_def setHeader_def new_response_def)

text \<open>A \<^verbatim>\<open>POST\<close> whose own URL parses goes through the checks in this order.\<close>

lemma handle_POST:
  assumes "req_method req = ''POST''"
    and "URL (req_url req) (Some (request_base req)) = Some urlObj"
  shows "handle URL JSON_parse fetch req res0 =
     (let res = setCors res0 in
      case searchParams_get urlObj ''url'' of
        None \<Rightarrow> (None, res_end (js ''Missing ?url='') (res\<lparr>statusCode := 400\<rparr>), [])
      | Some t \<Rightarrow>
          if t = [] then (None, res_end (js ''Missing ?url='') (res\<lparr>statusCode := 400\<rparr>), [])
          else if \<not> isAllowedTarget URL t then
            (None,
             res_end (js ''Target URL not allowed by proxy whitelist'') (res\<lparr>statusCode := 403\<rparr>),
             [])
          else if pathname urlObj = ''/fetch'' then
            handle_fetch fetch t (parseExtraHeaders JSON_parse req) res
          else if pathname urlObj = ''/upload'' then
            handle_upload fetch req t (parseExtraHeaders JSON_parse req) res
          else
            (None,
             res_end (js ''Not found. Use POST /fetch?url=... or POST /upload?url=...'')
               (res\<lparr>statusCode := 404\<rparr>),
             []))"
  using assms by (simp add: handle_def Let_def split: option.splits)

text \<open>
  C1 (as amended). A \<^verbatim>\<open>POST\<close> to \<^verbatim>\<open>/fetch\<close> or \<^verbatim>\<open>/upload\<close> whose \<^verbatim>\<open>url\<close>
  parameter is present and not empty, and whose target fails the allow-list check (it
  does not parse, or its scheme is neither http nor https, or its host, ignoring case, is
  no allowed suffix and does not end with a dot followed by one), is answered: the status
  is 403, the body is the fixed message, the response is ended, and no outbound call is
  made.
\<close>

theorem disallowed_target_403_no_call:
  assumes "req_method req = ''POST''"
    and "URL (req_url req) (Some (request_base req)) = Some urlObj"
    and "pathname urlObj = ''/fetch'' \<or> pathname urlObj = ''/upload''"
    and "searchParams_get urlObj ''url'' = Some t"
    and "t \<noteq> []"
    and "URL t None = None \<or>
         (\<exists>u. URL t None = Some u \<and>
            ((protocol u \<noteq> ''https:'' \<and> protocol u \<noteq> ''http:'') \<or>
             \<not> allow_listed_host (hostname u)))"
  shows "statusCode (fst (handler URL JSON_parse fetch req)) = 403 \<and>
         res_ended (fst (handler URL JSON_parse fetch req)) \<and>
         res_body (fst (handler URL JSON_parse fetch req)) =
           utf8_encode (js ''Target URL not allowed by proxy whitelist'') \<and>
         snd (handler URL JSON_parse fetch req) = []"
proof -
  from assms(6) have "\<not> isAllowedTarget URL t"
    unfolding isAllowedTarget_iff by auto
  with assms(3-5) show ?thesis
    by (simp add: handler_def handle_POST [OF assms(1), where URL = URL and urlObj = urlObj]
        assms(2) short_answer)
qed

text \<open>
  Witness for C1: \<^verbatim>\<open>POST /fetch?url=https://evil-amazonaws.com.attacker.net/\<close>, whose
  host is not on the allow-list, and
  \<^verbatim>\<open>POST /fetch?url=ftp://bucket.s3.amazonaws.com/key\<close>, whose host is on it and whose
  scheme is ftp, are both answered with 403, and nothing is called.
\<close>

theorem disallowed_target_403_no_call_witness:
  "statusCode (fst (handler URL_sample JSON_parse_sample fetch_fails
     (sample_request ''POST'' ''/fetch?url=https%3A%2F%2Fevil-amazonaws.com.attacker.net%2F'')))
     = 403 \<and>
   res_ended (fst (handler URL_sample JSON_parse_sample fetch_fails
     (sample_request ''POST'' ''/fetch?url=https%3A%2F%2Fevil-amazonaws.com.attacker.net%2F''))) \<and>
   snd (handler URL_sample JSON_parse_sample fetch_fails
     (sample_request ''POST'' ''/fetch?url=https%3A%2F%2Fevil-amazonaws.com.attacker.net%2F''))
     = [] \<and>
   allow_listed_host ''bucket.s3.amazonaws.com'' \<and>
   statusCode (fst (handler URL_sample JSON_parse_sample fetch_fails
     (sample_request ''POST'' ''/fetch?url=ftp%3A%2F%2Fbucket.s3.amazonaws.com%2Fkey''))) = 403 \<and>
   res_ended (fst (handler URL_sample JSON_parse_sample fetch_fails
     (sample_request ''POST'' ''/fetch?url=ftp%3A%2F%2Fbucket.s3.amazonaws.com%2Fkey''))) \<and>
   snd (handler URL_sample JSON_parse_sample fetch_fails
     (sample_request ''POST'' ''/fetch?url=ftp%3A%2F%2Fbucket.s3.amazonaws.com%2Fkey'')) = []"
proof -
  let ?req = "sample_request ''POST'' ''/fetch?url=https%3A%2F%2Fevil-amazonaws.com.attacker.net%2F''"
  let ?u = "relay_url ''/fetch'' [(''url'', ''https://evil-amazonaws.com.attacker.net/'')]"
  let ?t = "''https://evil-amazonaws.com.attacker.net/''"
  let ?req2 = "sample_request ''POST'' ''/fetch?url=ftp%3A%2F%2Fbucket.s3.amazonaws.com%2Fkey''"
  let ?u2 = "relay_url ''/fetch'' [(''url'', ''ftp://bucket.s3.amazonaws.com/key'')]"
  let ?t2 = "''ftp://bucket.s3.amazonaws.com/key''"
  have a1: "req_method ?req = ''POST''" and b1: "req_method ?req2 = ''POST''"
    by (simp_all add: sample_defs)
  have a2: "URL_sample (req_url ?req) (Some (request_base ?req)) = Some ?u"
    and b2: "URL_sample (req_url ?req2) (Some (request_base ?req2)) = Some ?u2"
    by (simp_all add: sample_defs)
  have a3: "pathname ?u = ''/fetch'' \<or> pathname ?u = ''/upload''"
    and b3: "pathname ?u2 = ''/fetch'' \<or> pathname ?u2 = ''/upload''"
    by (simp_all add: sample_defs)
  have a4: "searchParams_get ?u ''url'' = Some ?t" and b4: "searchParams_get ?u2 ''url'' = Some ?t2"
    by (simp_all add: sample_defs)
  have a5: "?t \<noteq> []" and b5: "?t2 \<noteq> []"
    by simp_all
  have "\<not> allow_listed_host ''evil-amazonaws.com.attacker.net''"
    by code_simp
  then have a6: "URL_sample ?t None = None \<or>
      (\<exists>u. URL_sample ?t None = Some u \<and>
         ((protocol u \<noteq> ''https:'' \<and> protocol u \<noteq> ''http:'') \<or>
          \<not> allow_listed_host (hostname u)))"
    by (simp add: sample_defs)
  have b6: "URL_sample ?t2 None = None \<or>
      (\<exists>u. URL_sample ?t2 None = Some u \<and>
         ((protocol u \<noteq> ''https:'' \<and> protocol u \<noteq> ''http:'') \<or>
          \<not> allow_listed_host (hostname u)))"
    by (simp add: sample_defs)
  have a7: "allow_listed_host ''bucket.s3.amazonaws.com''"
    by code_simp
  from disallowed_target_403_no_call [where URL = URL_sample and JSON_parse = JSON_parse_sample
        and fetch = fetch_fails, OF a1 a2 a3 a4 a5 a6]
    disallowed_target_403_no_call [where URL = URL_sample and JSON_parse = JSON_parse_sample
        and fetch = fetch_fails, OF b1 b2 b3 b4 b5 b6] a7
  show ?thesis by simp
qed

text \<open>
  Counterexample to C1 as stated: in \<^verbatim>\<open>POST /fetch?url=\<close> the parameter is present,
  its value (the empty string) does not parse as a URL, and the answer is 400, not 403:
  \<^verbatim>\<open>!target\<close> holds for the empty string too.
\<close>

theorem empty_url_400_counterexample:
  "req_method (sample_request ''POST'' ''/fetch?url='') = ''POST'' \<and>
   URL_sample (req_url (sample_request ''POST'' ''/fetch?url=''))
     (Some (request_base (sample_request ''POST'' ''/fetch?url='')))
     = Some (relay_url ''/fetch'' [(''url'', '''')]) \<and>
   pathname (relay_url ''/fetch'' [(''url'', '''')]) = ''/fetch'' \<and>
   searchParams_get (relay_url ''/fetch'' [(''url'', '''')]) ''url'' = Some '''' \<and>
   URL_sample '''' None = None \<and>
   \<not> isAllowedTarget URL_sample '''' \<and>
   statusCode (fst (handler URL_sample JSON_parse_sample fetch_fails
     (sample_request ''POST'' ''/fetch?url=''))) = 400"
  by (simp add: sample_defs isAllowedTarget_def handler_def handle_def statusCode_res_end)

text \<open>
  C5 (as amended). A \<^verbatim>\<open>POST\<close> to \<^verbatim>\<open>/fetch\<close> or \<^verbatim>\<open>/upload\<close> whose \<^verbatim>\<open>url\<close>
  parameter is missing or empty is answered with 400 and the message
  \<^verbatim>\<open>Missing ?url=\<close>; one whose \<^verbatim>\<open>url\<close> parameter is not empty and does not parse as
  an absolute URL is answered with 403 and the message of the allow-list. In both cases
  the response is ended and no outbound call is made.
\<close>

theorem missing_target_400:
  assumes "req_method req = ''POST''"
    and "URL (req_url req) (Some (request_base req)) = Some urlObj"
    and "pathname urlObj = ''/fetch'' \<or> pathname urlObj = ''/upload''"
  shows "(searchParams_get urlObj ''url'' = None \<or> searchParams_get urlObj ''url'' = Some [] \<longrightarrow>
            statusCode (fst (handler URL JSON_parse fetch req)) = 400 \<and>
            res_ended (fst (handler URL JSON_parse fetch req)) \<and>
            res_body (fst (handler URL JSON_parse fetch req)) = utf8_encode (js ''Missing ?url='') \<and>
            snd (handler URL JSON_parse fetch req) = []) \<and>
         (\<forall>t. searchParams_get urlObj ''url'' = Some t \<and> t \<noteq> [] \<and> URL t None = None \<longrightarrow>
            statusCode (fst (handler URL JSON_parse fetch req)) = 403 \<and>
            res_ended (fst (handler URL JSON_parse fetch req)) \<and>
            res_body (fst (handler URL JSON_parse fetch req)) =
              utf8_encode (js ''Target URL not allowed by proxy whitelist'') \<and>
            snd (handler URL JSON_parse fetch req) = [])"
  using assms(3)
  by (auto simp add: handler_def handle_POST [OF assms(1), where URL = URL and urlObj = urlObj]
      assms(2) short_answer isAllowedTarget_def)

text \<open>
  Witness for C5: \<^verbatim>\<open>POST /fetch\<close>, without a query, is answered with 400 and the
  response is ended.
\<close>

theorem missing_target_400_witness:
  "searchParams_get (relay_url ''/fetch'' []) ''url'' = None \<and>
   statusCode (fst (handler URL_sample JSON_parse_sample fetch_fails
     (sample_request ''POST'' ''/fetch''))) = 400 \<and>
   res_ended (fst (handler URL_sample JSON_parse_sample fetch_fails
     (sample_request ''POST'' ''/fetch''))) \<and>
   res_body (fst (handler URL_sample JSON_parse_sample fetch_fails
     (sample_request ''POST'' ''/fetch''))) = utf8_encode (js ''Missing ?url='') \<and>
   snd (handler URL_sample JSON_parse_sample fetch_fails (sample_request ''POST'' ''/fetch'')) = []"
proof -
  let ?req = "sample_request ''POST'' ''/fetch''"
  let ?u = "relay_url ''/fetch'' []"
  have 1: "req_method ?req = ''POST''"
    by (simp add: sample_defs)
  have 2: "URL_sample (req_url ?req) (Some (request_base ?req)) = Some ?u"
    by (simp add: sample_defs)
  have 3: "pathname ?u = ''/fetch'' \<or> pathname ?u = ''/upload''"
    by (simp add: sample_defs)
  have 4: "searchParams_get ?u ''url'' = None"
    by (simp add: sample_defs)
  from missing_target_400 [where URL = URL_sample and JSON_parse = JSON_parse_sample
      and fetch = fetch_fails, OF 1 2 3] 4
  show ?thesis by simp
qed

text \<open>
  Counterexample to C5 as stated: the target of \<^verbatim>\<open>POST /fetch?url=not-a-url\<close> does
  not parse as an absolute URL, and the answer is 403, not 400: \<^verbatim>\<open>isAllowedTarget\<close>
  returns \<^verbatim>\<open>false\<close> when \<^verbatim>\<open>new URL\<close> throws.
\<close>

theorem unparsable_target_403_counterexample:
  "req_method (sample_request ''POST'' ''/fetch?url=not-a-url'') = ''POST'' \<and>
   URL_sample (req_url (sample_request ''POST'' ''/fetch?url=not-a-url''))
     (Some (request_base (sample_request ''POST'' ''/fetch?url=not-a-url'')))
     = Some (relay_url ''/fetch'' [(''url'', ''not-a-url'')]) \<and>
   pathname (relay_url ''/fetch'' [(''url'', ''not-a-url'')]) = ''/fetch'' \<and>
   searchParams_get (relay_url ''/fetch'' [(''url'', ''not-a-url'')]) ''url'' = Some ''not-a-url'' \<and>
   URL_sample ''not-a-url'' None = None \<and>
   statusCode (fst (handler URL_sample JSON_parse_sample fetch_fails
     (sample_request ''POST'' ''/fetch?url=not-a-url''))) = 403"
  by (simp add: sample_defs isAllowedTarget_def handler_def handle_def statusCode_res_end)

text \<open>
  C6 (as amended). The method is checked before the path, and the \<^verbatim>\<open>url\<close> parameter
  and the allow-list before the route. A request that is not \<^verbatim>\<open>OPTIONS\<close> and whose
  own URL parses is answered with 405 when its method is not \<^verbatim>\<open>POST\<close>, whatever its
  path. When its path is neither \<^verbatim>\<open>/fetch\<close> nor \<^verbatim>\<open>/upload\<close>, it is answered with
  405 when its method is not \<^verbatim>\<open>POST\<close>, with 400 when the \<^verbatim>\<open>url\<close> parameter is missing
  or empty, with 403 when the target is not allowed, and with 404 otherwise. In each of
  these cases the body is the short message of that status, the response is ended, and no
  outbound call is made.
\<close>

theorem unknown_path_status:
  assumes "req_method req \<noteq> ''OPTIONS''"
    and "URL (req_url req) (Some (request_base req)) = Some urlObj"
  shows "(req_method req \<noteq> ''POST'' \<longrightarrow>
            statusCode (fst (handler URL JSON_parse fetch req)) = 405 \<and>
            res_ended (fst (handler URL JSON_parse fetch req)) \<and>
            res_body (fst (handler URL JSON_parse fetch req)) =
              utf8_encode (js ''Only POST is supported'') \<and>
            snd (handler URL JSON_parse fetch req) = []) \<and>
         (pathname urlObj \<noteq> ''/fetch'' \<and> pathname urlObj \<noteq> ''/upload'' \<longrightarrow>
            statusCode (fst (handler URL JSON_parse fetch req)) =
              (if req_method req \<noteq> ''POST'' then 405
               else case searchParams_get urlObj ''url'' of
                      None \<Rightarrow> 400
                    | Some t \<Rightarrow>
                        if t = [] then 400 else if \<not> isAllowedTarget URL t then 403 else 404) \<and>
            res_ended (fst (handler URL JSON_parse fetch req)) \<and>
            res_body (fst (handler URL JSON_parse fetch req)) =
              utf8_encode (js
                (if req_method req \<noteq> ''POST'' then ''Only POST is supported''
                 else case searchParams_get urlObj ''url'' of
                        None \<Rightarrow> ''Missing ?url=''
                      | Some t \<Rightarrow>
                          if t = [] then ''Missing ?url=''
                          else if \<not> isAllowedTarget URL t then
                            ''Target URL not allowed by proxy whitelist''
                          else ''Not found. Use POST /fetch?url=... or POST /upload?url=...'')) \<and>
            snd (handler URL JSON_parse fetch req) = [])"
proof (cases "req_method req = ''POST''")
  case True
  with assms show ?thesis
    by (simp add: handler_def handle_POST [where URL = URL and urlObj = urlObj]
        short_answer split: option.splits)
next
  case False
  with assms show ?thesis
    by (simp add: handler_def handle_def short_answer)
qed

text \<open>
  Witness for C6: \<^verbatim>\<open>POST /status?url=https://bucket.s3.amazonaws.com/key\<close>, with an
  allowed target, is answered with 404 and the response is ended.
\<close>

theorem unknown_path_status_witness:
  "isAllowedTarget URL_sample ''https://bucket.s3.amazonaws.com/key'' \<and>
   statusCode (fst (handler URL_sample JSON_parse_sample fetch_fails
     (sample_request ''POST'' ''/status?url=https%3A%2F%2Fbucket.s3.amazonaws.com%2Fkey'')))
     = 404 \<and>
   res_ended (fst (handler URL_sample JSON_parse_sample fetch_fails
     (sample_request ''POST'' ''/status?url=https%3A%2F%2Fbucket.s3.amazonaws.com%2Fkey''))) \<and>
   res_body (fst (handler URL_sample JSON_parse_sample fetch_fails
     (sample_request ''POST'' ''/status?url=https%3A%2F%2Fbucket.s3.amazonaws.com%2Fkey''))) =
     utf8_encode (js ''Not found. Use POST /fetch?url=... or POST /upload?url=...'') \<and>
   snd (handler URL_sample JSON_parse_sample fetch_fails
     (sample_request ''POST'' ''/status?url=https%3A%2F%2Fbucket.s3.amazonaws.com%2Fkey'')) = []"
proof -
  let ?req = "sample_request ''POST'' ''/status?url=https%3A%2F%2Fbucket.s3.amazonaws.com%2Fkey''"
  let ?u = "relay_url ''/status'' [(''url'', ''https://bucket.s3.amazonaws.com/key'')]"
  have 1: "req_method ?req \<noteq> ''OPTIONS''"
    by (simp add: sample_defs)
  have 2: "URL_sample (req_url ?req) (Some (request_base ?req)) = Some ?u"
    by (simp add: sample_defs)
  have 3: "pathname ?u \<noteq> ''/fetch'' \<and> pathname ?u \<noteq> ''/upload''"
    by (simp add: sample_defs)
  have 5: "isAllowedTarget URL_sample ''https://bucket.s3.amazonaws.com/key''"
    by (simp add: isAllowedTarget_def sample_defs toLowerCase_def lower_char_def
        ALLOWED_HOST_SUFFIXES_def endsWith_def)
  have 6: "req_method ?req = ''POST''"
    by (simp add: sample_defs)
  have 7: "searchParams_get ?u ''url'' = Some ''https://bucket.s3.amazonaws.com/key''"
    by (simp add: sample_defs)
  from unknown_path_status [where URL = URL_sample and JSON_parse = JSON_parse_sample
      and fetch = fetch_fails, OF 1 2] 3 5 6 7
  show ?thesis by simp
qed

text \<open>
  Counterexample to C6 as stated: \<^verbatim>\<open>GET /status\<close> is a request that is not
  \<^verbatim>\<open>OPTIONS\<close>, to a path that is neither \<^verbatim>\<open>/fetch\<close> nor \<^verbatim>\<open>/upload\<close>, and the
  answer is 405, not 404.
\<close>

theorem get_unknown_path_405_counterexample:
  "req_method (sample_request ''GET'' ''/status'') \<noteq> ''OPTIONS'' \<and>
   URL_sample (req_url (sample_request ''GET'' ''/status''))
     (Some (request_base (sample_request ''GET'' ''/status'')))
     = Some (relay_url ''/status'' []) \<and>
   pathname (relay_url ''/status'' []) = ''/status'' \<and>
   statusCode (fst (handler URL_sample JSON_parse_sample fetch_fails
     (sample_request ''GET'' ''/status''))) = 405"
  by (simp add: sample_defs handler_def handle_def statusCode_res_end)

subsection \<open>The outbound calls\<close>

lemma snd_handler:
  "snd (handler URL JSON_parse fetch req) = snd (snd (handle URL JSON_parse fetch req new_response))"
  by (simp add: handler_def Let_def split: prod.splits option.splits)

lemma calls_handle_fetch:
  "snd (snd (handle_fetch fetch t hs res)) =
     [\<lparr>call_url = t, call_method = ''GET'', call_headers = hs, call_body = None,
       call_redirect = ''follow''\<rparr>]"
  by (simp add: handle_fetch_def proxyFetch_def Let_def split: sum.splits)

lemma calls_handle_upload:
  "snd (snd (handle_upload fetch req t hs res)) =
     (case req_error req of
        Some e \<Rightarrow> []
      | None \<Rightarrow>
          [\<lparr>call_url = t, call_method = ''PUT'', call_headers = hs,
            call_body = Some (concat (req_chunks req)), call_redirect = ''follow''\<rparr>])"
  by (simp add: handle_upload_def readRequestBody_def proxyFetch_def Let_def
      split: sum.splits option.splits)

text \<open>Whatever the request, a call that is made carries the parsed extra headers.\<close>

lemma call_headers_handle:
  assumes "call \<in> set (snd (snd (handle URL JSON_parse fetch req res)))"
  shows "call_headers call = parseExtraHeaders JSON_parse req"
  using assms
  by (auto simp add: handle_def Let_def calls_handle_fetch calls_handle_upload
      split: option.splits if_splits)

text \<open>
  C7. When a \<^verbatim>\<open>POST\<close> passes the checks, \<^verbatim>\<open>/fetch\<close> makes exactly one outbound
  call, a \<^verbatim>\<open>GET\<close> without a body, and \<^verbatim>\<open>/upload\<close>, once the inbound body has been
  read, exactly one outbound call, a \<^verbatim>\<open>PUT\<close> whose body is the concatenation of all
  the chunks of the inbound body. Nothing in the request selects the method.
\<close>

theorem outbound_method_fixed:
  assumes "req_method req = ''POST''"
    and "URL (req_url req) (Some (request_base req)) = Some urlObj"
    and "searchParams_get urlObj ''url'' = Some t"
    and "t \<noteq> []"
    and "isAllowedTarget URL t"
  shows "(pathname urlObj = ''/fetch'' \<longrightarrow>
            snd (handler URL JSON_parse fetch req) =
              [\<lparr>call_url = t, call_method = ''GET'',
                call_headers = parseExtraHeaders JSON_parse req, call_body = None,
                call_redirect = ''follow''\<rparr>]) \<and>
         (pathname urlObj = ''/upload'' \<and> req_error req = None \<longrightarrow>
            snd (handler URL JSON_parse fetch req) =
              [\<lparr>call_url = t, call_method = ''PUT'',
                call_headers = parseExtraHeaders JSON_parse req,
                call_body = Some (concat (req_chunks req)), call_redirect = ''follow''\<rparr>]) \<and>
         (\<forall>call \<in> set (snd (handler URL JSON_parse fetch req)).
            (pathname urlObj = ''/fetch'' \<and> call_method call = ''GET'' \<and> call_body call = None) \<or>
            (pathname urlObj = ''/upload'' \<and> call_method call = ''PUT'' \<and>
             call_body call = Some (concat (req_chunks req))))"
  using assms
  by (auto simp add: snd_handler handle_POST [where URL = URL and urlObj = urlObj] Let_def
      calls_handle_fetch calls_handle_upload split: option.splits)

text \<open>
  Witness for C7: \<^verbatim>\<open>POST /upload?url=https://bucket.s3.amazonaws.com/key\<close> with a body
  that arrives in the chunks 1, 2 and 3 makes one \<^verbatim>\<open>PUT\<close> with the body 1, 2, 3.
\<close>

theorem outbound_method_fixed_witness:
  "snd (handler URL_sample JSON_parse_sample (fetch_returns created_response)
     (with_chunks [[1, 2], [3]]
        (sample_request ''POST'' ''/upload?url=https%3A%2F%2Fbucket.s3.amazonaws.com%2Fkey''))) =
     [\<lparr>call_url = ''https://bucket.s3.amazonaws.com/key'', call_method = ''PUT'',
       call_headers = [], call_body = Some [1, 2, 3], call_redirect = ''follow''\<rparr>]"
proof -
  let ?req = "with_chunks [[1, 2], [3]]
    (sample_request ''POST'' ''/upload?url=https%3A%2F%2Fbucket.s3.amazonaws.com%2Fkey'')"
  let ?u = "relay_url ''/upload'' [(''url'', ''https://bucket.s3.amazonaws.com/key'')]"
  have 1: "req_method ?req = ''POST''"
    by (simp add: sample_defs with_chunks_def)
  have 2: "URL_sample (req_url ?req) (Some (request_base ?req)) = Some ?u"
    by (simp add: sample_defs with_chunks_def)
  have 3: "searchParams_get ?u ''url'' = Some ''https://bucket.s3.amazonaws.com/key''"
    by (simp add: sample_defs)
  have 4: "''https://bucket.s3.amazonaws.com/key'' \<noteq> []"
    by simp
  have 5: "isAllowedTarget URL_sample ''https://bucket.s3.amazonaws.com/key''"
    by (simp add: isAllowedTarget_def sample_defs toLowerCase_def lower_char_def
        ALLOWED_HOST_SUFFIXES_def endsWith_def)
  have 6: "pathname ?u = ''/upload'' \<and> req_error ?req = None"
    by (simp add: sample_defs with_chunks_def)
  have 7: "parseExtraHeaders JSON_parse_sample ?req = []"
    by (simp add: parseExtraHeaders_def sample_defs with_chunks_def)
  have 8: "concat (req_chunks ?req) = [1, 2, 3]"
    by (simp add: with_chunks_def)
  from outbound_method_fixed [where URL = URL_sample and JSON_parse = JSON_parse_sample
      and fetch = "fetch_returns created_response", OF 1 2 3 4 5] 6 7 8
  show ?thesis by simp
qed

subsection \<open>The forwarded headers\<close>

lemma update_fresh: "k \<notin> fst ` set al \<Longrightarrow> AList.update k v al = al @ [(k, v)]"
  by (induction al) auto

lemma keep_entry_fresh:
  assumes "k \<notin> fst ` set out"
  shows "keep_entry (k, v) out =
           out @ [(k, s). (k, JString s) \<leftarrow> [(k, v)], toLowerCase k \<in> set allowed]"
  using assms by (cases v) (simp_all add: keep_entry_def Let_def update_fresh)

text \<open>
  The loop of \<^verbatim>\<open>parseExtraHeaders\<close> over the entries of an object: it appends, in
  order, the entries with an allowed name and a string value.
\<close>

lemma fold_keep_entry:
  assumes "distinct (map fst es)" and "fst ` set out \<inter> fst ` set es = {}"
  shows "fold keep_entry es out =
           out @ [(k, s). (k, JString s) \<leftarrow> es, toLowerCase k \<in> set allowed]"
  using assms
proof (induction es arbitrary: out)
  case Nil
  then show ?case by simp
next
  case (Cons e es)
  obtain k v where e: "e = (k, v)" by (cases e)
  from Cons.prems have fresh: "k \<notin> fst ` set out" and d: "distinct (map fst es)"
    and knew: "k \<notin> fst ` set es" and disj: "fst ` set out \<inter> fst ` set es = {}"
    by (auto simp add: e)
  have keys: "fst ` set (keep_entry (k, v) out) \<subseteq> insert k (fst ` set out)"
    by (cases v) (auto simp add: keep_entry_fresh [OF fresh] split: if_splits)
  with knew disj have "fst ` set (keep_entry (k, v) out) \<inter> fst ` set es = {}"
    by blast
  from Cons.IH [OF d this] show ?case
    by (cases v) (simp_all add: e keep_entry_fresh [OF fresh])
qed

lemma parseExtraHeaders_object:
  assumes "req_x_extra_headers req = Some raw"
    and "raw \<noteq> Single []"
    and "JSON_parse (first_value raw) = Some (JObject es)"
    and "distinct (map fst es)"
  shows "parseExtraHeaders JSON_parse req =
           [(k, s). (k, JString s) \<leftarrow> es, toLowerCase k \<in> set allowed]"
  using assms by (simp add: parseExtraHeaders_def fold_keep_entry)

lemma set_kept_entries:
  "set [(k, s). (k, JString s) \<leftarrow> es, toLowerCase k \<in> set allowed] =
     {(k, s). (k, JString s) \<in> set es \<and>
        toLowerCase k \<in> {''authorization'', ''x-ads-region'', ''accept'', ''content-type''}}"
  by (auto simp add: allowed_def split: json.splits)

text \<open>
  C2. When the \<^verbatim>\<open>X-Extra-Headers\<close> header of a \<^verbatim>\<open>POST\<close> that passes the checks
  holds a JSON object, the headers of the outbound call are exactly the entries of that
  object whose lower-cased key is \<^verbatim>\<open>authorization\<close>, \<^verbatim>\<open>x-ads-region\<close>,
  \<^verbatim>\<open>accept\<close> or \<^verbatim>\<open>content-type\<close> and whose value is a string; and such a call
  is made (on \<^verbatim>\<open>/upload\<close>, once the inbound body has been read).
\<close>

theorem extra_headers_forwarded_exactly:
  assumes "req_method req = ''POST''"
    and "URL (req_url req) (Some (request_base req)) = Some urlObj"
    and "pathname urlObj = ''/fetch'' \<or> pathname urlObj = ''/upload''"
    and "searchParams_get urlObj ''url'' = Some t"
    and "t \<noteq> []"
    and "isAllowedTarget URL t"
    and "req_x_extra_headers req = Some raw"
    and "raw \<noteq> Single []"
    and "JSON_parse (first_value raw) = Some (JObject es)"
    and "distinct (map fst es)"
  shows "(\<forall>call \<in> set (snd (handler URL JSON_parse fetch req)).
            set (call_headers call) =
              {(k, s). (k, JString s) \<in> set es \<and>
                 toLowerCase k \<in> {''authorization'', ''x-ads-region'', ''accept'', ''content-type''}}) \<and>
         (pathname urlObj = ''/fetch'' \<or> req_error req = None \<longrightarrow>
            length (snd (handler URL JSON_parse fetch req)) = 1)"
proof
  show "\<forall>call \<in> set (snd (handler URL JSON_parse fetch req)).
          set (call_headers call) =
            {(k, s). (k, JString s) \<in> set es \<and>
               toLowerCase k \<in> {''authorization'', ''x-ads-region'', ''accept'', ''content-type''}}"
  proof
    fix call
    assume "call \<in> set (snd (handler URL JSON_parse fetch req))"
    then have "call_headers call = parseExtraHeaders JSON_parse req"
      by (simp add: snd_handler call_headers_handle)
    then show "set (call_headers call) =
        {(k, s). (k, JString s) \<in> set es \<and>
           toLowerCase k \<in> {''authorization'', ''x-ads-region'', ''accept'', ''content-type''}}"
      by (simp only: parseExtraHeaders_object [where JSON_parse = JSON_parse, OF assms(7-10)]
          set_kept_entries)
  qed
next
  from assms(1-6)
  show "pathname urlObj = ''/fetch'' \<or> req_error req = None \<longrightarrow>
          length (snd (handler URL JSON_parse fetch req)) = 1"
    by (auto simp add: snd_handler handle_POST [where URL = URL and urlObj = urlObj] Let_def
        calls_handle_fetch calls_handle_upload)
qed

text \<open>
  Witness for C2: with \<^verbatim>\<open>Authorization\<close>, \<^verbatim>\<open>X-Forbidden\<close> and \<^verbatim>\<open>Accept\<close> in
  \<^verbatim>\<open>X-Extra-Headers\<close>, the outbound call of \<^verbatim>\<open>/fetch\<close> carries \<^verbatim>\<open>Authorization\<close>
  and \<^verbatim>\<open>Accept\<close> only.
\<close>

theorem extra_headers_forwarded_exactly_witness:
  \<open>length (snd (handler URL_sample JSON_parse_sample (fetch_returns created_response)
     (with_extra_headers
        (Single ''{"Authorization":"Bearer abc","X-Forbidden":"x","Accept":"text/plain"}'')
        (sample_request ''POST'' ''/fetch?url=https%3A%2F%2Fbucket.s3.amazonaws.com%2Fkey'')))) = 1 \<and>
   set (call_headers (hd (snd (handler URL_sample JSON_parse_sample
     (fetch_returns created_response)
     (with_extra_headers
        (Single ''{"Authorization":"Bearer abc","X-Forbidden":"x","Accept":"text/plain"}'')
        (sample_request ''POST'' ''/fetch?url=https%3A%2F%2Fbucket.s3.amazonaws.com%2Fkey'')))))) =
     {(''Authorization'', ''Bearer abc''), (''Accept'', ''text/plain'')}\<close>
proof -
  let ?raw = \<open>Single ''{"Authorization":"Bearer abc","X-Forbidden":"x","Accept":"text/plain"}''\<close>
  let ?req = "with_extra_headers ?raw
    (sample_request ''POST'' ''/fetch?url=https%3A%2F%2Fbucket.s3.amazonaws.com%2Fkey'')"
  let ?u = "relay_url ''/fetch'' [(''url'', ''https://bucket.s3.amazonaws.com/key'')]"
  let ?es = "[(''Authorization'', JString ''Bearer abc''), (''X-Forbidden'', JString ''x''),
              (''Accept'', JString ''text/plain'')]"
  let ?calls = "snd (handler URL_sample JSON_parse_sample (fetch_returns created_response) ?req)"
  have 1: "req_method ?req = ''POST''"
    by (simp add: sample_defs with_extra_headers_def)
  have 2: "URL_sample (req_url ?req) (Some (request_base ?req)) = Some ?u"
    by (simp add: sample_defs with_extra_headers_def)
  have 3: "pathname ?u = ''/fetch'' \<or> pathname ?u = ''/upload''"
    by (simp add: sample_defs)
  have 4: "searchParams_get ?u ''url'' = Some ''https://bucket.s3.amazonaws.com/key''"
    by (simp add: sample_defs)
  have 5: "''https://bucket.s3.amazonaws.com/key'' \<noteq> []"
    by simp
  have 6: "isAllowedTarget URL_sample ''https://bucket.s3.amazonaws.com/key''"
    by (simp add: isAllowedTarget_def sample_defs toLowerCase_def lower_char_def
        ALLOWED_HOST_SUFFIXES_def endsWith_def)
  have 7: "req_x_extra_headers ?req = Some ?raw"
    by (simp add: with_extra_headers_def)
  have 8: "?raw \<noteq> Single []"
    by simp
  have 9: "JSON_parse_sample (first_value ?raw) = Some (JObject ?es)"
    by (simp add: JSON_parse_sample_def)
  have 10: "distinct (map fst ?es)"
    by simp
  have 11: "pathname ?u = ''/fetch''"
    by (simp add: sample_defs)
  note inst = extra_headers_forwarded_exactly [where URL = URL_sample
      and JSON_parse = JSON_parse_sample and fetch = "fetch_returns created_response",
      OF 1 2 3 4 5 6 7 8 9 10]
  from inst 11 have len: "length ?calls = 1"
    by blast
  then have "hd ?calls \<in> set ?calls"
    by (cases ?calls) simp_all
  with inst have "set (call_headers (hd ?calls)) =
      {(k, s). (k, JString s) \<in> set ?es \<and>
         toLowerCase k \<in> {''authorization'', ''x-ads-region'', ''accept'', ''content-type''}}"
    by blast
  also have "\<dots> = {(''Authorization'', ''Bearer abc''), (''Accept'', ''text/plain'')}"
    by (auto simp add: toLowerCase_def lower_char_def)
  finally show ?thesis
    using len by simp
qed

subsection \<open>Extra headers that are not an object\<close>

lemma last_decimal: "decimal n \<noteq> [] \<and> last (decimal n) \<in> set ''0123456789''"
proof -
  have "n mod 10 < length ''0123456789''"
    by simp
  then have "''0123456789'' ! (n mod 10) \<in> set ''0123456789''"
    by (rule nth_mem)
  then show ?thesis
    by (subst (1 2) decimal.simps) (auto simp del: set_simps simp add: Let_def)
qed

lemma decimal_not_allowed: "toLowerCase (decimal n) \<notin> set allowed"
proof
  assume a: "toLowerCase (decimal n) \<in> set allowed"
  have ne: "decimal n \<noteq> []" and "last (decimal n) \<in> set ''0123456789''"
    using last_decimal [of n] by simp_all
  then have "lower_char (last (decimal n)) \<in> set ''0123456789''"
    by (auto simp add: lower_char_def)
  with ne have "last (toLowerCase (decimal n)) \<in> set ''0123456789''"
    by (simp add: toLowerCase_def last_map)
  with a show False
    by (auto simp add: allowed_def)
qed

lemma fold_keep_entry_none:
  assumes "\<forall>e \<in> set es. toLowerCase (fst e) \<notin> set allowed"
  shows "fold keep_entry es out = out"
  using assms by (induction es arbitrary: out) (auto simp add: keep_entry_def Let_def)

lemma parseExtraHeaders_not_object:
  assumes "JSON_parse (first_value raw) = Some v" and "\<forall>es. v \<noteq> JObject es"
    and "req_x_extra_headers req = Some raw"
  shows "parseExtraHeaders JSON_parse req = []"
proof (cases v)
  case (JArray vs)
  have "\<forall>e \<in> set (zip (map decimal [0..<length vs]) vs). toLowerCase (fst e) \<notin> set allowed"
    by (auto simp add: decimal_not_allowed dest!: set_zip_leftD)
  then have "fold keep_entry (zip (map decimal [0..<length vs]) vs) [] = []"
    by (rule fold_keep_entry_none)
  with assms JArray show ?thesis
    by (simp add: parseExtraHeaders_def)
qed (use assms in \<open>simp_all add: parseExtraHeaders_def\<close>)

text \<open>The request enters the handler through these fields only.\<close>

lemma handler_cong:
  assumes "req_method r' = req_method r" and "req_url r' = req_url r"
    and "req_host r' = req_host r" and "req_chunks r' = req_chunks r"
    and "req_error r' = req_error r"
    and "parseExtraHeaders JSON_parse r' = parseExtraHeaders JSON_parse r"
  shows "handler URL JSON_parse fetch r' = handler URL JSON_parse fetch r"
proof -
  have b: "request_base r' = request_base r"
    by (simp add: request_base_def assms)
  have "readRequestBody r' = readRequestBody r"
    by (simp add: readRequestBody_def assms split: option.splits)
  then have u: "handle_upload fetch r' t hs res = handle_upload fetch r t hs res" for t hs res
    by (simp add: handle_upload_def)
  have "handle URL JSON_parse fetch r' res0 = handle URL JSON_parse fetch r res0" for res0
    unfolding handle_def by (simp only: assms b u)
  then show ?thesis
    by (simp add: handler_def)
qed

text \<open>
  C8. When the \<^verbatim>\<open>X-Extra-Headers\<close> header is absent, is not valid JSON, or is JSON
  that is not an object, the forwarded headers are empty: every outbound call is made
  without headers and the relay answers exactly as it answers the same request without
  that header.
\<close>

theorem malformed_extra_headers_ignored:
  assumes "req_x_extra_headers req = None \<or>
           (\<exists>raw. req_x_extra_headers req = Some raw \<and>
              (JSON_parse (first_value raw) = None \<or>
               (\<exists>v. JSON_parse (first_value raw) = Some v \<and> (\<forall>es. v \<noteq> JObject es))))"
  shows "parseExtraHeaders JSON_parse req = [] \<and>
         (\<forall>call \<in> set (snd (handler URL JSON_parse fetch req)). call_headers call = []) \<and>
         handler URL JSON_parse fetch req =
           handler URL JSON_parse fetch (req\<lparr>req_x_extra_headers := None\<rparr>)"
proof -
  have empty: "parseExtraHeaders JSON_parse req = []"
    using assms
    by (auto simp add: parseExtraHeaders_not_object) (simp_all add: parseExtraHeaders_def)
  have "parseExtraHeaders JSON_parse (req\<lparr>req_x_extra_headers := None\<rparr>) = []"
    by (simp add: parseExtraHeaders_def)
  with empty have "handler URL JSON_parse fetch (req\<lparr>req_x_extra_headers := None\<rparr>) =
      handler URL JSON_parse fetch req"
    by (intro handler_cong) simp_all
  with empty show ?thesis
    by (simp add: snd_handler call_headers_handle)
qed

text \<open>
  Witness for C8: with \<^verbatim>\<open>X-Extra-Headers: not-json\<close>, \<^verbatim>\<open>/fetch\<close> calls the target
  without headers and answers 200.
\<close>

theorem malformed_extra_headers_ignored_witness:
  "JSON_parse_sample (first_value (Single ''not-json'')) = None \<and>
   snd (handler URL_sample JSON_parse_sample (fetch_returns created_response)
     (with_extra_headers (Single ''not-json'')
        (sample_request ''POST'' ''/fetch?url=https%3A%2F%2Fbucket.s3.amazonaws.com%2Fkey''))) =
     [\<lparr>call_url = ''https://bucket.s3.amazonaws.com/key'', call_method = ''GET'',
       call_headers = [], call_body = None, call_redirect = ''follow''\<rparr>] \<and>
   statusCode (fst (handler URL_sample JSON_parse_sample (fetch_returns created_response)
     (with_extra_headers (Single ''not-json'')
        (sample_request ''POST'' ''/fetch?url=https%3A%2F%2Fbucket.s3.amazonaws.com%2Fkey'')))) = 200"
proof -
  let ?plain = "sample_request ''POST'' ''/fetch?url=https%3A%2F%2Fbucket.s3.amazonaws.com%2Fkey''"
  let ?req = "with_extra_headers (Single ''not-json'') ?plain"
  have 1: "JSON_parse_sample (first_value (Single ''not-json'')) = None"
    by (simp add: JSON_parse_sample_def)
  then have 2: "req_x_extra_headers ?req = None \<or>
      (\<exists>raw. req_x_extra_headers ?req = Some raw \<and>
         (JSON_parse_sample (first_value raw) = None \<or>
          (\<exists>v. JSON_parse_sample (first_value raw) = Some v \<and> (\<forall>es. v \<noteq> JObject es))))"
    by (simp add: with_extra_headers_def)
  have 3: "?req\<lparr>req_x_extra_headers := None\<rparr> = ?plain"
    by (simp add: with_extra_headers_def sample_request_def)
  have 4: "isAllowedTarget URL_sample ''https://bucket.s3.amazonaws.com/key''"
    by (simp add: isAllowedTarget_def sample_defs toLowerCase_def lower_char_def
        ALLOWED_HOST_SUFFIXES_def endsWith_def)
  have 5: "handler URL_sample JSON_parse_sample (fetch_returns created_response) ?plain =
      (res_end [] ((setHeader ''Content-Type'' ''application/octet-stream''
          (setCors new_response))\<lparr>statusCode := 200\<rparr>),
       [\<lparr>call_url = ''https://bucket.s3.amazonaws.com/key'', call_method = ''GET'',
         call_headers = [], call_body = None, call_redirect = ''follow''\<rparr>])"
    using 4
    by (simp add: handler_def handle_def handle_fetch_def proxyFetch_def parseExtraHeaders_def
        fetch_returns_def created_response_def ok_def headers_get_def sample_defs res_end_def)
  from malformed_extra_headers_ignored [where URL = URL_sample and JSON_parse = JSON_parse_sample
      and fetch = "fetch_returns created_response", OF 2] 1 3 5
  show ?thesis
    by (simp add: statusCode_res_end)
qed

subsection \<open>UTF-8 on ASCII text and on a sample\<close>










subsection \<open>The answer to a forwarded request\<close>

lemma res_end_simps:
  "statusCode (res_end d res) = statusCode res"
  "res_headers (res_end d res) = res_headers res"
  "res_body (res_end d res) = res_body res @ utf8_encode d"
  by (simp_all add: res_end_def)

lemma setHeader_simps:
  "statusCode (setHeader k v res) = statusCode res"
  "res_body (setHeader k v res) = res_body res"
  "map_of (res_headers (setHeader k v res)) k = Some v"
  by (simp_all add: setHeader_def update_conv')

lemma setCors_simps:
  "statusCode (setCors res) = statusCode res"
  "res_body (setCors res) = res_body res"
  by (simp_all add: setCors_def setHeader_def)







subsection \<open>The echoed text\<close>








subsection \<open>The catch block\<close>

text \<open>
  A rejected \<^verbatim>\<open>fetch\<close>, which is how the abort of the timer
  (\<^verbatim>\<open>new Error("proxy timeout")\<close>) and a network failure reach the handler, is answered
  with 500 and the message of the error.
\<close>

lemma rejected_fetch_answers_500:
  assumes "req_method req = ''POST''"
    and "URL (req_url req) (Some (request_base req)) = Some urlObj"
    and "pathname urlObj = ''/fetch''"
    and "searchParams_get urlObj ''url'' = Some t"
    and "t \<noteq> []"
    and "isAllowedTarget URL t"
    and "fetch \<lparr>call_url = t, call_method = ''GET'',
                 call_headers = parseExtraHeaders JSON_parse req, call_body = None,
                 call_redirect = ''follow''\<rparr> = Inl e"
  shows "statusCode (fst (handler URL JSON_parse fetch req)) = 500"
    and "res_body (fst (handler URL JSON_parse fetch req)) =
           utf8_encode (js (''Proxy error: '' @ message_or_String e))"
proof -
  have "handle URL JSON_parse fetch req new_response =
      handle_fetch fetch t (parseExtraHeaders JSON_parse req) (setCors new_response)"
    using assms(3-6)
    by (simp add: handle_POST [OF assms(1), where URL = URL and urlObj = urlObj] assms(2))
  then show "statusCode (fst (handler URL JSON_parse fetch req)) = 500"
    and "res_body (fst (handler URL JSON_parse fetch req)) =
           utf8_encode (js (''Proxy error: '' @ message_or_String e))"
    using assms(7)
    by (simp_all add: handler_def handle_fetch_def proxyFetch_def Let_def res_end_simps
        setHeader_simps setCors_simps new_response_def)
qed

end
